theory Spec2Isabelle
  imports Main "HOL-Library.AList"
begin

section \<open>The rendered view\<close>

text \<open>
  Both components are Lit elements: \<open>render()\<close> returns a template whose holes are filled
  from the instance's properties, and Lit writes the values into the shadow tree. The
  model is the element tree that results. An element has a tag, the class names of its
  \<open>classList\<close>, its other attributes in the order of the template, and the listeners
  bound with \<open>@event=\<close>. White-space text between the tags of the template is left out.
\<close>

datatype handler = HandleClick | HandleKeyDown

datatype node =
    Element (tag: string) (classes: "string list") (attributes: "(string \<times> string) list")
      (listeners: "(string \<times> handler) list") (children: "node list")
  | Text string

text \<open>An attribute of an element, by name (\<open>getAttribute\<close>).\<close>

definition attribute :: "node \<Rightarrow> string \<Rightarrow> string option" where
  "attribute n a = map_of (attributes n) a"

text \<open>
  A child expression of a template is either a nested template or \<open>null\<close>, and Lit
  renders \<open>null\<close> as nothing.
\<close>

fun child :: "node option \<Rightarrow> node list" where
  "child None = []"
| "child (Some n) = [n]"

text \<open>All nodes of a view: the root and everything below it, in document order.\<close>

fun nodes :: "node \<Rightarrow> node list" where
  "nodes (Text t) = [Text t]"
| "nodes (Element t cs as ls ns) = Element t cs as ls ns # concat (map nodes ns)"

fun is_element :: "string \<Rightarrow> node \<Rightarrow> bool" where
  "is_element t (Text s) = False"
| "is_element t (Element t' cs as ls ns) = (t' = t)"

definition elements :: "string \<Rightarrow> node \<Rightarrow> node list" where
  "elements t v = filter (is_element t) (nodes v)"

text \<open>An element with its class names replaced and everything else kept.\<close>

fun set_classes :: "string list \<Rightarrow> node \<Rightarrow> node" where
  "set_classes cs (Element t cs' as ls ns) = Element t cs as ls ns"
| "set_classes cs (Text s) = Text s"

subsection \<open>Class names in the DOM\<close>

text \<open>
  The \<open>class\<close> attribute is a string, and the classes of the element are its tokens: the
  string is split on ASCII white space (tab, line feed, form feed, carriage return,
  space) and each token is appended to an ordered set, so a repeated token counts once.
\<close>

definition ascii_whitespace :: "char \<Rightarrow> bool" where
  "ascii_whitespace c = (c \<in> {CHR 0x09, CHR 0x0A, CHR 0x0C, CHR 0x0D, CHR 0x20})"

fun split_ws :: "string \<Rightarrow> string \<Rightarrow> string list" where
  "split_ws cur [] = (if cur = [] then [] else [cur])"
| "split_ws cur (c # cs) =
     (if ascii_whitespace c then (if cur = [] then [] else [cur]) @ split_ws [] cs
      else split_ws (cur @ [c]) cs)"

definition split_on_ascii_whitespace :: "string \<Rightarrow> string list" where
  "split_on_ascii_whitespace s = split_ws [] s"

definition append_token :: "string \<Rightarrow> string list \<Rightarrow> string list" where
  "append_token t ts = (if t \<in> set ts then ts else ts @ [t])"

definition class_tokens :: "string \<Rightarrow> string list" where
  "class_tokens v = foldl (\<lambda>ts t. append_token t ts) [] (split_on_ascii_whitespace v)"

text \<open>
  \<open>classList.add(t)\<close> and \<open>classList.remove(t)\<close> first validate the token: the empty
  string raises a \<open>SyntaxError\<close>, a token with ASCII white space an
  \<open>InvalidCharacterError\<close>, and then nothing is changed.
\<close>

datatype DOMException = SyntaxError | InvalidCharacterError

definition validate_token :: "string \<Rightarrow> DOMException option" where
  "validate_token t =
     (if t = [] then Some SyntaxError
      else if list_ex ascii_whitespace t then Some InvalidCharacterError
      else None)"

definition classList_add :: "string \<Rightarrow> string list \<Rightarrow> DOMException + string list" where
  "classList_add t ts =
     (case validate_token t of Some e \<Rightarrow> Inl e | None \<Rightarrow> Inr (append_token t ts))"

definition classList_remove :: "string \<Rightarrow> string list \<Rightarrow> DOMException + string list" where
  "classList_remove t ts =
     (case validate_token t of Some e \<Rightarrow> Inl e | None \<Rightarrow> Inr (removeAll t ts))"

subsection \<open>Object literals\<close>

text \<open>
  An object is an association list in the order in which its properties were created:
  a JavaScript object literal stores its properties one after the other, and a name
  that is already there keeps its place and takes the later value, which is what
  \<^const>\<open>AList.update\<close> does. \<open>Object.keys\<close> and \<open>for ... in\<close> list the names that are
  array indices first, in ascending numeric order, and then the other names in the
  order of creation. An array index is the decimal numeral, without leading zeros, of a
  number up to \<open>2^32 - 2\<close>.
\<close>

definition is_digit :: "char \<Rightarrow> bool" where
  "is_digit c = (c \<in> set ''0123456789'')"

definition numeric_value :: "string \<Rightarrow> nat" where
  "numeric_value s = foldl (\<lambda>n c. 10 * n + (of_char c - 48)) 0 s"

definition is_array_index :: "string \<Rightarrow> bool" where
  "is_array_index s =
     (s \<noteq> [] \<and> list_all is_digit s \<and> (s = ''0'' \<or> hd s \<noteq> CHR ''0'') \<and>
      numeric_value s \<le> 4294967294)"

definition ownKeys :: "(string \<times> 'v) list \<Rightarrow> string list" where
  "ownKeys obj =
     sort_key numeric_value (filter is_array_index (map fst obj)) @
     filter (\<lambda>k. \<not> is_array_index k) (map fst obj)"

text \<open>
  \<open>name in obj\<close> is true for the object's own properties and for those it inherits
  from \<open>Object.prototype\<close>.
\<close>

definition Object_prototype :: "string list" where
  "Object_prototype =
     [''constructor'', ''__defineGetter__'', ''__defineSetter__'', ''hasOwnProperty'',
      ''__lookupGetter__'', ''__lookupSetter__'', ''isPrototypeOf'', ''propertyIsEnumerable'',
      ''toString'', ''valueOf'', ''__proto__'', ''toLocaleString'']"

definition has_property :: "string \<Rightarrow> (string \<times> 'v) list \<Rightarrow> bool" where
  "has_property k obj = (k \<in> set (map fst obj) \<or> k \<in> set Object_prototype)"

subsection \<open>The directive \<open>classMap\<close>\<close>

text \<open>
  \<open>classMap\<close> of \<open>lit/directives/class-map.js\<close> takes an object from class names to
  truthy or falsy values. It is not part of this repository; the model follows the
  directive class of Lit. In the badge it is the only expression of the \<open>class\<close>
  attribute, so there are no static classes beside it.

  On the first render the directive remembers the names with a truthy value and returns
  the string \<open>' ' + Object.keys(classInfo).filter(truthy).join(' ') + ' '\<close>, which Lit
  writes into the \<open>class\<close> attribute; nothing is validated there.
\<close>

type_synonym ClassInfo = "(string \<times> bool) list"

definition truthy :: "ClassInfo \<Rightarrow> string \<Rightarrow> bool" where
  "truthy classInfo k = (map_of classInfo k = Some True)"

fun join_space :: "string list \<Rightarrow> string" where
  "join_space [] = []"
| "join_space [k] = k"
| "join_space (k # ks) = k @ '' '' @ join_space ks"

definition classMap_render :: "ClassInfo \<Rightarrow> string" where
  "classMap_render classInfo =
     '' '' @ join_space (filter (truthy classInfo) (ownKeys classInfo)) @ '' ''"

text \<open>
  On every later render the directive edits the \<open>classList\<close> of the element from the
  names it remembered (\<open>_previousClasses\<close>). First, each remembered name that is not
  \<open>in classInfo\<close> is removed from the class list and forgotten. Then, for each name of
  \<open>classInfo\<close> whose truth value differs from its being remembered, the name is added
  and remembered or removed and forgotten. An exception of \<open>classList\<close> ends the
  update where it is raised: what was done before it stays done. The state is the class
  list of the element and the remembered names.
\<close>

type_synonym class_state = "string list \<times> string list"

fun remove_old ::
    "ClassInfo \<Rightarrow> string list \<Rightarrow> class_state \<Rightarrow> DOMException option \<times> class_state" where
  "remove_old classInfo [] st = (None, st)"
| "remove_old classInfo (name # names) (classList, previousClasses) =
     (if has_property name classInfo
      then remove_old classInfo names (classList, previousClasses)
      else case classList_remove name classList of
             Inl e \<Rightarrow> (Some e, (classList, previousClasses))
           | Inr classList' \<Rightarrow>
               remove_old classInfo names (classList', removeAll name previousClasses))"

fun add_or_remove ::
    "ClassInfo \<Rightarrow> string list \<Rightarrow> class_state \<Rightarrow> DOMException option \<times> class_state" where
  "add_or_remove classInfo [] st = (None, st)"
| "add_or_remove classInfo (name # names) (classList, previousClasses) =
     (if truthy classInfo name = (name \<in> set previousClasses)
      then add_or_remove classInfo names (classList, previousClasses)
      else if truthy classInfo name
      then case classList_add name classList of
             Inl e \<Rightarrow> (Some e, (classList, previousClasses))
           | Inr classList' \<Rightarrow>
               add_or_remove classInfo names (classList', previousClasses @ [name])
      else case classList_remove name classList of
             Inl e \<Rightarrow> (Some e, (classList, previousClasses))
           | Inr classList' \<Rightarrow>
               add_or_remove classInfo names (classList', removeAll name previousClasses))"

definition classMap_update :: "ClassInfo \<Rightarrow> class_state \<Rightarrow> DOMException option \<times> class_state" where
  "classMap_update classInfo st =
     (case remove_old classInfo (snd st) st of
        (Some e, st') \<Rightarrow> (Some e, st')
      | (None, st') \<Rightarrow> add_or_remove classInfo (ownKeys classInfo) st')"

section \<open>The skill badge\<close>

text \<open>
  \<open>src/components/skill-badge.ts\<close>. The declared type of \<open>level\<close> is the union of four
  string literals, but the property is filled from an attribute of the host page, so at
  run time it is any string.
\<close>

record SkillBadge =
  skill :: string
  level :: string
  clickable :: bool

text \<open>The four members of the declared type of \<open>level\<close>, each with a style rule \<open>.badge.<level>\<close>.\<close>

definition levels :: "string list" where
  "levels = [''beginner'', ''intermediate'', ''advanced'', ''expert'']"

text \<open>The object \<open>classes\<close> of \<open>render()\<close>.\<close>

definition SkillBadge_classes :: "'z SkillBadge_scheme \<Rightarrow> ClassInfo" where
  "SkillBadge_classes b =
     AList.update ''clickable'' (SkillBadge.clickable b)
       (AList.update (level b) True
         (AList.update ''badge'' True []))"

text \<open>
  The \<open>span\<close> of the template with a given class list: every part other than the
  \<open>class\<close> attribute is a plain value, which Lit writes as it is.
\<close>

definition SkillBadge_root :: "string list \<Rightarrow> 'z SkillBadge_scheme \<Rightarrow> node" where
  "SkillBadge_root cs b =
     Element ''span'' cs
       [(''part'', ''badge''),
        (''role'', if SkillBadge.clickable b then ''button'' else ''status''),
        (''tabindex'', if SkillBadge.clickable b then ''0'' else ''-1''),
        (''aria-label'', skill b @ '' - '' @ level b @ '' level'')]
       [(''click'', HandleClick), (''keydown'', HandleKeyDown)]
       [Text (skill b)]"

text \<open>
  The view of \<open>render()\<close>, as a first render shows it: the classes are the tokens of the
  string that \<open>classMap\<close> returns for the \<open>class\<close> attribute.
\<close>

definition SkillBadge_render :: "'z SkillBadge_scheme \<Rightarrow> node" where
  "SkillBadge_render b = SkillBadge_root (class_tokens (classMap_render (SkillBadge_classes b))) b"

text \<open>The level classes among the classes of the root element.\<close>

definition level_classes :: "node \<Rightarrow> string list" where
  "level_classes v = filter (\<lambda>c. c \<in> set levels) (classes v)"

subsection \<open>Rendering over time\<close>

text \<open>
  What a badge has rendered: the root element in the shadow tree, the names that
  \<open>classMap\<close> remembers, and the exception of the latest update, if it raised one (the
  promise \<open>updateComplete\<close> is then rejected with it).
\<close>

record SkillBadge_rendering =
  root :: node
  previousClasses :: "string list"
  thrown :: "DOMException option"

definition SkillBadge_firstRender :: "'z SkillBadge_scheme \<Rightarrow> SkillBadge_rendering" where
  "SkillBadge_firstRender b =
     \<lparr>root = SkillBadge_render b,
      previousClasses = filter (truthy (SkillBadge_classes b)) (ownKeys (SkillBadge_classes b)),
      thrown = None\<rparr>"

text \<open>
  A later update writes the parts in the order of the template. The \<open>class\<close> attribute
  comes first: when \<open>classMap\<close> raises, the update ends there and the other parts keep
  the values of the render before.
\<close>

definition SkillBadge_update ::
    "'z SkillBadge_scheme \<Rightarrow> SkillBadge_rendering \<Rightarrow> SkillBadge_rendering" where
  "SkillBadge_update b r =
     (case classMap_update (SkillBadge_classes b) (classes (root r), previousClasses r) of
        (Some e, (classList, previous)) \<Rightarrow>
          \<lparr>root = set_classes classList (root r), previousClasses = previous, thrown = Some e\<rparr>
      | (None, (classList, previous)) \<Rightarrow>
          \<lparr>root = SkillBadge_root classList b, previousClasses = previous, thrown = None\<rparr>)"


text \<open>
  A plain class name is a class token that is not the name of a property of
  \<open>Object.prototype\<close>. The four declared levels are plain.
\<close>

definition plain_class :: "string \<Rightarrow> bool" where
  "plain_class k = (validate_token k = None \<and> k \<notin> set Object_prototype)"

text \<open>
  A rendering is in step with the properties \<open>b\<close> when its latest update raised nothing,
  its root is the \<open>span\<close> of \<open>b\<close>, and both the classes of the root and the names that
  \<open>classMap\<close> remembers are the names with a truthy value in the class object of \<open>b\<close>.
\<close>

definition in_step :: "'z SkillBadge_scheme \<Rightarrow> SkillBadge_rendering \<Rightarrow> bool" where
  "in_step b r =
     (thrown r = None \<and>
      root r = SkillBadge_root (classes (root r)) b \<and>
      set (classes (root r)) = set (previousClasses r) \<and>
      set (previousClasses r) =
        set (filter (truthy (SkillBadge_classes b)) (ownKeys (SkillBadge_classes b))))"

section \<open>The profile card\<close>

text \<open>\<open>src/components/profile-card.ts\<close>.\<close>

record ProfileCard =
  name :: string
  title :: string
  avatar :: string
  clickable :: bool

text \<open>
  A string in a condition is truthy when it is not empty: the image is rendered when
  \<open>avatar\<close> is not \<open>''\<close>, the paragraph when \<open>title\<close> is not \<open>''\<close>.
\<close>

definition ProfileCard_render :: "'z ProfileCard_scheme \<Rightarrow> node" where
  "ProfileCard_render p =
     Element ''div'' [''container'']
       [(''part'', ''container''),
        (''role'', if ProfileCard.clickable p then ''button'' else ''article''),
        (''tabindex'', if ProfileCard.clickable p then ''0'' else ''-1'')]
       [(''click'', HandleClick), (''keydown'', HandleKeyDown)]
       [Element ''div'' [''header''] [(''part'', ''header'')] []
          (child (if avatar p \<noteq> []
                  then Some (Element ''img'' [''avatar'']
                         [(''src'', avatar p), (''alt'', ''Avatar of '' @ name p),
                          (''loading'', ''lazy'')] [] [])
                  else None) @
           [Element ''div'' [''info''] [] []
              (Element ''h2'' [''name''] [] [] [Text (name p)] #
               child (if title p \<noteq> []
                      then Some (Element ''p'' [''title''] [] [] [Text (title p)])
                      else None))]),
        Element ''div'' [''content''] [] [] [Element ''slot'' [] [] [] []]]"



section \<open>Events and handlers\<close>

text \<open>
  The handlers read the properties of the instance and make two kinds of calls on the
  platform: \<open>this.dispatchEvent(new CustomEvent(type, init))\<close> and \<open>e.preventDefault()\<close>.
  The state a handler runs in is the instance together with the calls made so far,
  oldest first. The listeners that a dispatched event reaches belong to the host page
  and are not part of the components.
\<close>

record CustomEvent =
  type :: string
  detail :: "(string \<times> string) list"
  bubbles :: bool
  composed :: bool

record KeyboardEvent =
  key :: string

datatype effect = DispatchEvent CustomEvent | PreventDefault KeyboardEvent

record 'i world =
  this :: 'i
  effects :: "effect list"

definition dispatchEvent :: "CustomEvent \<Rightarrow> 'i world \<Rightarrow> 'i world" where
  "dispatchEvent ev w = w\<lparr>effects := effects w @ [DispatchEvent ev]\<rparr>"

definition preventDefault :: "KeyboardEvent \<Rightarrow> 'i world \<Rightarrow> 'i world" where
  "preventDefault e w = w\<lparr>effects := effects w @ [PreventDefault e]\<rparr>"

text \<open>The events dispatched so far, and the keyboard events whose default was prevented.\<close>

fun dispatched_of :: "effect list \<Rightarrow> CustomEvent list" where
  "dispatched_of [] = []"
| "dispatched_of (DispatchEvent ev # xs) = ev # dispatched_of xs"
| "dispatched_of (PreventDefault e # xs) = dispatched_of xs"

fun prevented_of :: "effect list \<Rightarrow> KeyboardEvent list" where
  "prevented_of [] = []"
| "prevented_of (DispatchEvent ev # xs) = prevented_of xs"
| "prevented_of (PreventDefault e # xs) = e # prevented_of xs"

definition dispatched :: "'i world \<Rightarrow> CustomEvent list" where
  "dispatched w = dispatched_of (effects w)"

definition prevented :: "'i world \<Rightarrow> KeyboardEvent list" where
  "prevented w = prevented_of (effects w)"

subsection \<open>Handlers of the badge\<close>

definition SkillBadge_handleClick :: "'z SkillBadge_scheme world \<Rightarrow> 'z SkillBadge_scheme world" where
  "SkillBadge_handleClick w =
     (if SkillBadge.clickable (this w)
      then dispatchEvent
             \<lparr>type = ''badge-click'',
              detail = [(''skill'', skill (this w)), (''level'', level (this w))],
              bubbles = True,
              composed = True\<rparr> w
      else w)"

definition SkillBadge_handleKeyDown ::
    "KeyboardEvent \<Rightarrow> 'z SkillBadge_scheme world \<Rightarrow> 'z SkillBadge_scheme world" where
  "SkillBadge_handleKeyDown e w =
     (if SkillBadge.clickable (this w) \<and> (key e = ''Enter'' \<or> key e = '' '')
      then SkillBadge_handleClick (preventDefault e w)
      else w)"

subsection \<open>Handlers of the card\<close>

definition ProfileCard_handleClick ::
    "'z ProfileCard_scheme world \<Rightarrow> 'z ProfileCard_scheme world" where
  "ProfileCard_handleClick w =
     (if ProfileCard.clickable (this w)
      then dispatchEvent
             \<lparr>type = ''profile-click'',
              detail = [(''name'', name (this w)), (''title'', title (this w))],
              bubbles = True,
              composed = True\<rparr> w
      else w)"

definition ProfileCard_handleKeyDown ::
    "KeyboardEvent \<Rightarrow> 'z ProfileCard_scheme world \<Rightarrow> 'z ProfileCard_scheme world" where
  "ProfileCard_handleKeyDown e w =
     (if ProfileCard.clickable (this w) \<and> (key e = ''Enter'' \<or> key e = '' '')
      then ProfileCard_handleClick (preventDefault e w)
      else w)"

subsection \<open>Sequences of inputs\<close>

text \<open>
  The root element binds \<open>@click\<close> to \<open>_handleClick\<close> and \<open>@keydown\<close> to
  \<open>_handleKeyDown\<close>, so a click runs the first and a key press runs the second with the
  keyboard event. A sequence of inputs runs the handlers one after the other.
\<close>

datatype input = Click | KeyDown KeyboardEvent

fun SkillBadge_deliver :: "input \<Rightarrow> 'z SkillBadge_scheme world \<Rightarrow> 'z SkillBadge_scheme world" where
  "SkillBadge_deliver Click w = SkillBadge_handleClick w"
| "SkillBadge_deliver (KeyDown e) w = SkillBadge_handleKeyDown e w"

fun SkillBadge_run :: "input list \<Rightarrow> 'z SkillBadge_scheme world \<Rightarrow> 'z SkillBadge_scheme world" where
  "SkillBadge_run [] w = w"
| "SkillBadge_run (i # is) w = SkillBadge_run is (SkillBadge_deliver i w)"

fun ProfileCard_deliver ::
    "input \<Rightarrow> 'z ProfileCard_scheme world \<Rightarrow> 'z ProfileCard_scheme world" where
  "ProfileCard_deliver Click w = ProfileCard_handleClick w"
| "ProfileCard_deliver (KeyDown e) w = ProfileCard_handleKeyDown e w"

fun ProfileCard_run ::
    "input list \<Rightarrow> 'z ProfileCard_scheme world \<Rightarrow> 'z ProfileCard_scheme world" where
  "ProfileCard_run [] w = w"
| "ProfileCard_run (i # is) w = ProfileCard_run is (ProfileCard_deliver i w)"

section \<open>What the handlers do to the state\<close>


lemma dispatched_of_append: "dispatched_of (xs @ ys) = dispatched_of xs @ dispatched_of ys"
  by (induction xs rule: dispatched_of.induct) simp_all

lemma prevented_of_append: "prevented_of (xs @ ys) = prevented_of xs @ prevented_of ys"
  by (induction xs rule: prevented_of.induct) simp_all

lemma dispatchEvent_simps:
  "this (dispatchEvent ev w) = this w"
  "dispatched (dispatchEvent ev w) = dispatched w @ [ev]"
  "prevented (dispatchEvent ev w) = prevented w"
  by (simp_all add: dispatchEvent_def dispatched_def prevented_def
      dispatched_of_append prevented_of_append)

lemma preventDefault_simps:
  "this (preventDefault e w) = this w"
  "dispatched (preventDefault e w) = dispatched w"
  "prevented (preventDefault e w) = prevented w @ [e]"
  by (simp_all add: preventDefault_def dispatched_def prevented_def
      dispatched_of_append prevented_of_append)

lemma SkillBadge_handleClick_this: "this (SkillBadge_handleClick w) = this w"
  by (simp add: SkillBadge_handleClick_def dispatchEvent_simps)

lemma SkillBadge_handleKeyDown_this: "this (SkillBadge_handleKeyDown e w) = this w"
  by (simp add: SkillBadge_handleKeyDown_def SkillBadge_handleClick_this preventDefault_simps)

lemma SkillBadge_deliver_this: "this (SkillBadge_deliver i w) = this w"
  by (cases i) (simp_all add: SkillBadge_handleClick_this SkillBadge_handleKeyDown_this)

lemma SkillBadge_run_this: "this (SkillBadge_run is w) = this w"
  by (induction "is" arbitrary: w) (simp_all add: SkillBadge_deliver_this)

lemma ProfileCard_handleClick_this: "this (ProfileCard_handleClick w) = this w"
  by (simp add: ProfileCard_handleClick_def dispatchEvent_simps)

lemma ProfileCard_handleKeyDown_this: "this (ProfileCard_handleKeyDown e w) = this w"
  by (simp add: ProfileCard_handleKeyDown_def ProfileCard_handleClick_this preventDefault_simps)

lemma ProfileCard_deliver_this: "this (ProfileCard_deliver i w) = this w"
  by (cases i) (simp_all add: ProfileCard_handleClick_this ProfileCard_handleKeyDown_this)

lemma ProfileCard_run_this: "this (ProfileCard_run is w) = this w"
  by (induction "is" arbitrary: w) (simp_all add: ProfileCard_deliver_this)

lemma SkillBadge_handleClick_dispatched:
  "dispatched (SkillBadge_handleClick w) =
     dispatched w @
     (if SkillBadge.clickable (this w)
      then [\<lparr>type = ''badge-click'',
             detail = [(''skill'', skill (this w)), (''level'', level (this w))],
             bubbles = True, composed = True\<rparr>]
      else [])"
  by (simp add: SkillBadge_handleClick_def dispatchEvent_simps)

lemma SkillBadge_handleKeyDown_dispatched:
  "dispatched (SkillBadge_handleKeyDown e w) =
     dispatched w @
     (if SkillBadge.clickable (this w) \<and> (key e = ''Enter'' \<or> key e = '' '')
      then [\<lparr>type = ''badge-click'',
             detail = [(''skill'', skill (this w)), (''level'', level (this w))],
             bubbles = True, composed = True\<rparr>]
      else [])"
  by (simp add: SkillBadge_handleKeyDown_def SkillBadge_handleClick_dispatched
      preventDefault_simps)

lemma ProfileCard_handleClick_dispatched:
  "dispatched (ProfileCard_handleClick w) =
     dispatched w @
     (if ProfileCard.clickable (this w)
      then [\<lparr>type = ''profile-click'',
             detail = [(''name'', name (this w)), (''title'', title (this w))],
             bubbles = True, composed = True\<rparr>]
      else [])"
  by (simp add: ProfileCard_handleClick_def dispatchEvent_simps)

lemma ProfileCard_handleKeyDown_dispatched:
  "dispatched (ProfileCard_handleKeyDown e w) =
     dispatched w @
     (if ProfileCard.clickable (this w) \<and> (key e = ''Enter'' \<or> key e = '' '')
      then [\<lparr>type = ''profile-click'',
             detail = [(''name'', name (this w)), (''title'', title (this w))],
             bubbles = True, composed = True\<rparr>]
      else [])"
  by (simp add: ProfileCard_handleKeyDown_def ProfileCard_handleClick_dispatched
      preventDefault_simps)

lemma SkillBadge_deliver_inert:
  "\<not> SkillBadge.clickable (this w) \<Longrightarrow> SkillBadge_deliver i w = w"
  by (cases i) (simp_all add: SkillBadge_handleClick_def SkillBadge_handleKeyDown_def)

lemma SkillBadge_run_inert:
  "\<not> SkillBadge.clickable (this w) \<Longrightarrow> SkillBadge_run is w = w"
  by (induction "is") (simp_all add: SkillBadge_deliver_inert)

lemma ProfileCard_deliver_inert:
  "\<not> ProfileCard.clickable (this w) \<Longrightarrow> ProfileCard_deliver i w = w"
  by (cases i) (simp_all add: ProfileCard_handleClick_def ProfileCard_handleKeyDown_def)

lemma ProfileCard_run_inert:
  "\<not> ProfileCard.clickable (this w) \<Longrightarrow> ProfileCard_run is w = w"
  by (induction "is") (simp_all add: ProfileCard_deliver_inert)

section \<open>Class names, \<open>classMap\<close> and rendering over time\<close>

lemma set_foldl_append_token:
  "set (foldl (\<lambda>ts t. append_token t ts) acc xs) = set acc \<union> set xs"
  by (induction xs arbitrary: acc) (auto simp: append_token_def)

lemma set_class_tokens: "set (class_tokens v) = set (split_on_ascii_whitespace v)"
  by (simp add: class_tokens_def set_foldl_append_token)

lemma split_ws_append:
  "ascii_whitespace w \<Longrightarrow> split_ws cur (a @ w # b) = split_ws cur a @ split_ws [] b"
  by (induction a arbitrary: cur) simp_all

lemma split_join_space:
  "split_on_ascii_whitespace (join_space ks) = concat (map split_on_ascii_whitespace ks)"
proof (induction ks rule: join_space.induct)
  case (3 k k' ks)
  have "ascii_whitespace CHR '' ''" by (simp add: ascii_whitespace_def)
  from split_ws_append [OF this, of "[]" k "join_space (k' # ks)"] 3 show ?case
    by (simp add: split_on_ascii_whitespace_def)
qed (simp_all add: split_on_ascii_whitespace_def)

lemma split_classMap_render:
  "split_on_ascii_whitespace (classMap_render ci) =
     concat (map split_on_ascii_whitespace (filter (truthy ci) (ownKeys ci)))"
proof -
  have sp: "ascii_whitespace CHR '' ''" by (simp add: ascii_whitespace_def)
  have "split_ws [] (CHR '' '' # join_space ks @ [CHR '' '']) = split_ws [] (join_space ks)" for ks
    using split_ws_append [OF sp, of "[]" "join_space ks" "[]"] sp by simp
  then show ?thesis
    using split_join_space [of "filter (truthy ci) (ownKeys ci)"]
    by (simp add: classMap_render_def split_on_ascii_whitespace_def)
qed

lemma split_ws_token:
  "\<not> list_ex ascii_whitespace t \<Longrightarrow> cur @ t \<noteq> [] \<Longrightarrow> split_ws cur t = [cur @ t]"
  by (induction t arbitrary: cur) auto

lemma split_token: "validate_token t = None \<Longrightarrow> split_on_ascii_whitespace t = [t]"
  using split_ws_token [of t "[]"]
  by (auto simp: validate_token_def split_on_ascii_whitespace_def split: if_splits)

lemma set_ownKeys: "set (ownKeys obj) = fst ` set obj"
  by (auto simp: ownKeys_def)


lemma SkillBadge_classes_cases:
  "SkillBadge_classes b =
     (if level b = ''badge'' \<or> level b = ''clickable''
      then [(''badge'', True), (''clickable'', SkillBadge.clickable b)]
      else [(''badge'', True), (level b, True), (''clickable'', SkillBadge.clickable b)])"
  by (simp add: SkillBadge_classes_def)

lemma SkillBadge_keys:
  "fst ` set (SkillBadge_classes b) = {''badge'', level b, ''clickable''}"
  by (auto simp: SkillBadge_classes_cases)

lemma SkillBadge_truthy:
  "truthy (SkillBadge_classes b) k \<longleftrightarrow>
     k = ''badge'' \<or> (k = level b \<and> k \<noteq> ''clickable'') \<or>
     (k = ''clickable'' \<and> SkillBadge.clickable b)"
  by (auto simp: SkillBadge_classes_cases truthy_def)

lemma SkillBadge_truthy_keys:
  "set (filter (truthy (SkillBadge_classes b)) (ownKeys (SkillBadge_classes b))) =
     {''badge''} \<union> (if level b = ''clickable'' then {} else {level b}) \<union>
     (if SkillBadge.clickable b then {''clickable''} else {})"
  by (auto simp: set_ownKeys SkillBadge_keys SkillBadge_truthy)

lemma token_badge: "validate_token ''badge'' = None"
  by (simp add: validate_token_def ascii_whitespace_def)

lemma token_clickable: "validate_token ''clickable'' = None"
  by (simp add: validate_token_def ascii_whitespace_def)

lemma SkillBadge_first_classes:
  "set (classes (SkillBadge_render b)) =
     {''badge''} \<union>
     (if level b = ''clickable'' then {} else set (split_on_ascii_whitespace (level b))) \<union>
     (if SkillBadge.clickable b then {''clickable''} else {})"
proof -
  define K where "K = filter (truthy (SkillBadge_classes b)) (ownKeys (SkillBadge_classes b))"
  have "classes (SkillBadge_render b) = class_tokens (classMap_render (SkillBadge_classes b))"
    by (simp add: SkillBadge_render_def SkillBadge_root_def)
  then have 1: "set (classes (SkillBadge_render b)) = (\<Union>k \<in> set K. set (split_on_ascii_whitespace k))"
    unfolding K_def
    by (simp only: set_class_tokens split_classMap_render set_concat set_map image_image)
  have 2: "set K = {''badge''} \<union> (if level b = ''clickable'' then {} else {level b}) \<union>
     (if SkillBadge.clickable b then {''clickable''} else {})"
    unfolding K_def by (rule SkillBadge_truthy_keys)
  show ?thesis
    unfolding 1 2 by (simp add: split_token token_badge token_clickable)
qed

lemma remove_old_ok:
  assumes "\<forall>n \<in> set names. has_property n ci \<or> validate_token n = None"
  shows "\<exists>cl' prev'. remove_old ci names (cl, prev) = (None, (cl', prev')) \<and>
           set cl' = set cl - {n \<in> set names. \<not> has_property n ci} \<and>
           set prev' = set prev - {n \<in> set names. \<not> has_property n ci}"
  using assms
proof (induction names arbitrary: cl prev)
  case Nil
  then show ?case by simp
next
  case (Cons n ns)
  show ?case
  proof (cases "has_property n ci")
    case True
    with Cons.IH [of cl prev] Cons.prems show ?thesis by auto
  next
    case False
    with Cons.prems have "validate_token n = None" by simp
    with False Cons.IH [of "removeAll n cl" "removeAll n prev"] Cons.prems show ?thesis
      by (auto simp: classList_remove_def)
  qed
qed


lemma add_or_remove_ok:
  assumes "\<forall>n \<in> set names. validate_token n = None" and "set cl = set prev"
  shows "\<exists>cl' prev'. add_or_remove ci names (cl, prev) = (None, (cl', prev')) \<and>
           set cl' = set prev' \<and>
           set prev' = (set prev - {n \<in> set names. \<not> truthy ci n}) \<union>
                       {n \<in> set names. truthy ci n}"
  using assms
proof (induction names arbitrary: cl prev)
  case Nil
  then show ?case by simp
next
  case (Cons n ns)
  from Cons.prems have tok: "validate_token n = None" and rest: "\<forall>n \<in> set ns. validate_token n = None"
    by simp_all
  consider (same) "truthy ci n = (n \<in> set prev)"
    | (add) "truthy ci n" "n \<notin> set prev"
    | (remove) "\<not> truthy ci n" "n \<in> set prev"
    by blast
  then show ?case
  proof cases
    case same
    with Cons.IH [OF rest Cons.prems(2)] show ?thesis by auto
  next
    case add
    from Cons.prems(2) have "set (append_token n cl) = set (prev @ [n])"
      by (auto simp: append_token_def)
    from Cons.IH [OF rest this] add tok show ?thesis
      by (auto simp: classList_add_def)
  next
    case remove
    from Cons.prems(2) have "set (removeAll n cl) = set (removeAll n prev)"
      by auto
    from Cons.IH [OF rest this] remove tok show ?thesis
      by (auto simp: classList_remove_def)
  qed
qed


lemma add_or_remove_throws:
  assumes "\<forall>n \<in> set pre. truthy ci n = (n \<in> set prev)"
    and "truthy ci k" and "k \<notin> set prev" and "validate_token k = Some e"
  shows "add_or_remove ci (pre @ k # post) (cl, prev) = (Some e, (cl, prev))"
  using assms by (induction pre) (simp_all add: classList_add_def)

lemma digit_not_whitespace: "is_digit c \<Longrightarrow> \<not> ascii_whitespace c"
  unfolding is_digit_def ascii_whitespace_def by auto

lemma array_index_is_token: "is_array_index s \<Longrightarrow> validate_token s = None"
  using digit_not_whitespace
  by (auto simp: is_array_index_def validate_token_def list_all_iff list_ex_iff)

lemma plain_badge: "plain_class ''badge''"
  by (simp add: plain_class_def validate_token_def ascii_whitespace_def Object_prototype_def)

lemma plain_clickable: "plain_class ''clickable''"
  by (simp add: plain_class_def validate_token_def ascii_whitespace_def Object_prototype_def)

lemma plain_levels: "l \<in> set levels \<Longrightarrow> plain_class l"
  unfolding levels_def
  by (elim disjE | simp add: plain_class_def validate_token_def ascii_whitespace_def
      Object_prototype_def)+

lemma classes_SkillBadge_root: "classes (SkillBadge_root cs b) = cs"
  by (simp add: SkillBadge_root_def)

lemma SkillBadge_root_again: "SkillBadge_root cs' b = set_classes cs' (SkillBadge_root cs b)"
  by (simp add: SkillBadge_root_def)

lemma truthy_keys_tokens:
  assumes "validate_token (level b) = None"
    and "k \<in> set (filter (truthy (SkillBadge_classes b)) (ownKeys (SkillBadge_classes b)))"
  shows "validate_token k = None"
  using assms token_badge token_clickable
  by (auto simp: SkillBadge_truthy_keys simp del: set_filter split: if_splits)

lemma in_step_first:
  assumes "validate_token (level b) = None"
  shows "in_step b (SkillBadge_firstRender b)"
proof -
  have "set (classes (SkillBadge_render b)) =
      set (filter (truthy (SkillBadge_classes b)) (ownKeys (SkillBadge_classes b)))"
    unfolding SkillBadge_first_classes SkillBadge_truthy_keys
    using assms by (simp add: split_token)
  then show ?thesis
    by (simp add: in_step_def SkillBadge_firstRender_def SkillBadge_render_def
        classes_SkillBadge_root del: set_filter)
qed

lemma plain_truthy_keys:
  assumes "plain_class (level b)"
    and "k \<in> set (filter (truthy (SkillBadge_classes b)) (ownKeys (SkillBadge_classes b)))"
  shows "plain_class k"
  using assms plain_badge plain_clickable
  by (auto simp: SkillBadge_truthy_keys simp del: set_filter split: if_splits)

lemma classMap_update_ok:
  fixes b :: "'y SkillBadge_scheme" and b' :: "'z SkillBadge_scheme"
  assumes prev: "set prev = set (filter (truthy (SkillBadge_classes b)) (ownKeys (SkillBadge_classes b)))"
    and cl: "set cl = set prev"
    and plain: "plain_class (level b)"
    and tok: "validate_token (level b') = None"
  shows "\<exists>cl' prev'. classMap_update (SkillBadge_classes b') (cl, prev) = (None, (cl', prev')) \<and>
           set cl' = set prev' \<and>
           set prev' = set (filter (truthy (SkillBadge_classes b')) (ownKeys (SkillBadge_classes b')))"
proof -
  let ?ci = "SkillBadge_classes b'"
  have prev_plain: "plain_class n" if "n \<in> set prev" for n
    using that prev plain_truthy_keys [OF plain] by blast
  then have "\<forall>n \<in> set prev. has_property n ?ci \<or> validate_token n = None"
    by (auto simp: plain_class_def)
  from remove_old_ok [OF this, of cl prev] obtain cl1 prev1 where
    r1: "remove_old ?ci prev (cl, prev) = (None, (cl1, prev1))"
    and cl1: "set cl1 = set cl - {n \<in> set prev. \<not> has_property n ?ci}"
    and prev1: "set prev1 = set prev - {n \<in> set prev. \<not> has_property n ?ci}"
    by blast
  have keys_tok: "\<forall>n \<in> set (ownKeys ?ci). validate_token n = None"
    using tok token_badge token_clickable by (auto simp: set_ownKeys SkillBadge_keys)
  from cl cl1 prev1 have "set cl1 = set prev1" by simp
  from add_or_remove_ok [OF keys_tok this, of ?ci] obtain cl2 prev2 where
    r2: "add_or_remove ?ci (ownKeys ?ci) (cl1, prev1) = (None, (cl2, prev2))"
    and cl2: "set cl2 = set prev2"
    and prev2: "set prev2 = (set prev1 - {n \<in> set (ownKeys ?ci). \<not> truthy ?ci n}) \<union>
                  {n \<in> set (ownKeys ?ci). truthy ?ci n}"
    by blast
  have "n \<in> set (ownKeys ?ci)" if "n \<in> set prev1" for n
  proof -
    from that prev1 have "n \<in> set prev" and "has_property n ?ci" by auto
    with prev_plain [of n] show ?thesis
      by (auto simp: has_property_def plain_class_def set_ownKeys)
  qed
  with prev2 have "set prev2 = set (filter (truthy ?ci) (ownKeys ?ci))" by auto
  with r1 r2 cl2 show ?thesis
    by (simp add: classMap_update_def del: set_filter)
qed

lemma in_step_update:
  fixes b :: "'y SkillBadge_scheme" and b' :: "'z SkillBadge_scheme"
  assumes "in_step b r" and "plain_class (level b)" and "validate_token (level b') = None"
  shows "in_step b' (SkillBadge_update b' r)"
proof -
  from assms(1) have prev: "set (previousClasses r) =
      set (filter (truthy (SkillBadge_classes b)) (ownKeys (SkillBadge_classes b)))"
    and cl: "set (classes (root r)) = set (previousClasses r)"
    by (simp_all add: in_step_def del: set_filter)
  from classMap_update_ok [OF prev cl assms(2,3)] obtain cl' prev' where
    "classMap_update (SkillBadge_classes b') (classes (root r), previousClasses r) =
       (None, (cl', prev'))"
    and "set cl' = set prev'"
    and "set prev' = set (filter (truthy (SkillBadge_classes b')) (ownKeys (SkillBadge_classes b')))"
    by blast
  then show ?thesis
    by (simp add: in_step_def SkillBadge_update_def classes_SkillBadge_root del: set_filter)
qed




lemma in_step_view:
  assumes "validate_token (level b) = None" and "in_step b r"
  shows "root r = set_classes (classes (root r)) (SkillBadge_render b)"
    and "set (classes (root r)) = set (classes (SkillBadge_render b))"
proof -
  from assms(2) have "root r = SkillBadge_root (classes (root r)) b"
    by (simp add: in_step_def)
  then show "root r = set_classes (classes (root r)) (SkillBadge_render b)"
    using SkillBadge_root_again [of "classes (root r)" b] by (simp add: SkillBadge_render_def)
  from in_step_first [OF assms(1)] assms(2)
  show "set (classes (root r)) = set (classes (SkillBadge_render b))"
    by (simp add: in_step_def SkillBadge_firstRender_def del: set_filter)
qed

lemma ownKeys_no_index:
  "list_all (\<lambda>k. \<not> is_array_index k) (map fst obj) \<Longrightarrow> ownKeys obj = map fst obj"
  by (simp add: ownKeys_def list_all_iff filter_empty_conv filter_id_conv)

lemma not_index_badge: "\<not> is_array_index ''badge''"
  by (simp add: is_array_index_def is_digit_def)

lemma not_index_clickable: "\<not> is_array_index ''clickable''"
  by (simp add: is_array_index_def is_digit_def)

lemma SkillBadge_update_thrown:
  fixes b :: "'y SkillBadge_scheme" and b0 :: "'z SkillBadge_scheme"
  assumes "level b0 \<in> set levels"
  shows "thrown (SkillBadge_update b (SkillBadge_firstRender b0)) = validate_token (level b)"
proof (cases "validate_token (level b)")
  case None
  from assms have p0: "plain_class (level b0)" by (rule plain_levels)
  then have "in_step b0 (SkillBadge_firstRender b0)"
    by (intro in_step_first) (simp add: plain_class_def)
  from in_step_update [OF this p0 None] None show ?thesis
    by (simp add: in_step_def)
next
  case (Some e)
  let ?ci = "SkillBadge_classes b"
  let ?r = "SkillBadge_firstRender b0"
  let ?prev = "previousClasses ?r"
  from assms have p0: "plain_class (level b0)" by (rule plain_levels)
  then have t0: "validate_token (level b0) = None" by (simp add: plain_class_def)
  have prev: "set ?prev =
      set (filter (truthy (SkillBadge_classes b0)) (ownKeys (SkillBadge_classes b0)))"
    by (simp add: SkillBadge_firstRender_def)
  have prev_tok: "validate_token n = None" if "n \<in> set ?prev" for n
    using that truthy_keys_tokens [OF t0, of n] prev by blast
  from Some token_badge token_clickable have ne: "level b \<noteq> ''badge''" "level b \<noteq> ''clickable''"
    by auto
  from Some array_index_is_token [of "level b"] have "\<not> is_array_index (level b)"
    by auto
  with ne have keys: "ownKeys ?ci = [''badge'', level b, ''clickable'']"
    by (simp add: ownKeys_no_index SkillBadge_classes_cases not_index_badge not_index_clickable)
  have "\<forall>n \<in> set ?prev. has_property n ?ci \<or> validate_token n = None"
    by (intro ballI disjI2 prev_tok)
  from remove_old_ok [OF this, of "classes (root ?r)" ?prev] obtain cl1 prev1 where
    r1: "remove_old ?ci ?prev (classes (root ?r), ?prev) = (None, (cl1, prev1))"
    and prev1: "set prev1 = set ?prev - {n \<in> set ?prev. \<not> has_property n ?ci}"
    by blast
  have "''badge'' \<in> set ?prev"
    unfolding prev SkillBadge_truthy_keys by simp
  moreover have "has_property ''badge'' ?ci"
    by (simp add: has_property_def SkillBadge_keys)
  ultimately have "''badge'' \<in> set prev1"
    using prev1 by simp
  then have pre: "\<forall>n \<in> set [''badge'']. truthy ?ci n = (n \<in> set prev1)"
    by (simp add: SkillBadge_truthy)
  have tr: "truthy ?ci (level b)"
    using ne by (simp add: SkillBadge_truthy)
  have "level b \<notin> set ?prev"
    using prev_tok [of "level b"] Some by auto
  with prev1 have out: "level b \<notin> set prev1" by simp
  from add_or_remove_throws [OF pre tr out Some, of "[''clickable'']" cl1]
  have "add_or_remove ?ci (ownKeys ?ci) (cl1, prev1) = (Some e, (cl1, prev1))"
    by (simp add: keys)
  with r1 Some show ?thesis
    by (simp add: SkillBadge_update_def classMap_update_def)
qed



section \<open>Properties of the components\<close>

text \<open>
  C1 (as stated, refuted). The claim says that a \<open>level\<close> outside the four values is
  resolved to \<open>intermediate\<close>. The code has no such step: with \<open>level = ''guru''\<close> the root
  element carries the class \<open>guru\<close> and does not carry \<open>intermediate\<close>.
\<close>

theorem SkillBadge_invalid_level_counterexample:
  "''guru'' \<notin> set levels \<and>
   ''intermediate'' \<notin> set (classes (SkillBadge_render
      \<lparr>skill = ''TypeScript'', level = ''guru'', SkillBadge.clickable = False\<rparr>)) \<and>
   ''guru'' \<in> set (classes (SkillBadge_render
      \<lparr>skill = ''TypeScript'', level = ''guru'', SkillBadge.clickable = False\<rparr>))"
  by code_simp

text \<open>
  C1 (amended). For every string supplied as \<open>level\<close> that is not one of the four
  values there is no fallback to \<open>intermediate\<close>; the string itself goes into the class
  attribute.

  \<^item> The first render raises nothing, and the classes of the root are \<open>badge\<close>, the
    white-space separated words of the string, and \<open>clickable\<close> when the flag is set
    (the string \<open>clickable\<close> is the key of the flag's own entry and follows the flag).
    So a level class, \<open>intermediate\<close> included, is on the root exactly when it is one
    of those words, and none is when the string is a single class token.
  \<^item> On a render after a first render with a declared level, the update raises exactly
    when the string is not a class token: a \<open>SyntaxError\<close> for the empty string, an
    \<open>InvalidCharacterError\<close> for a string with white space. When it is a class token
    nothing is raised and the classes of the root are those of the view of the current
    properties.
\<close>

theorem SkillBadge_invalid_level_no_fallback:
  fixes b :: "'y SkillBadge_scheme" and b0 :: "'z SkillBadge_scheme"
  assumes "level b \<notin> set levels"
  shows "thrown (SkillBadge_firstRender b) = None \<and>
         root (SkillBadge_firstRender b) = SkillBadge_render b \<and>
         set (classes (SkillBadge_render b)) =
           {''badge''} \<union>
           (if level b = ''clickable'' then {}
            else set (split_on_ascii_whitespace (level b))) \<union>
           (if SkillBadge.clickable b then {''clickable''} else {}) \<and>
         set (level_classes (SkillBadge_render b)) =
           set levels \<inter> set (split_on_ascii_whitespace (level b)) \<and>
         (''intermediate'' \<in> set (classes (SkillBadge_render b)) \<longleftrightarrow>
            ''intermediate'' \<in> set (split_on_ascii_whitespace (level b))) \<and>
         (validate_token (level b) = None \<longrightarrow> level_classes (SkillBadge_render b) = []) \<and>
         (level b0 \<in> set levels \<longrightarrow>
            thrown (SkillBadge_update b (SkillBadge_firstRender b0)) = validate_token (level b) \<and>
            (validate_token (level b) = None \<longrightarrow>
               set (classes (root (SkillBadge_update b (SkillBadge_firstRender b0)))) =
               set (classes (SkillBadge_render b))))"
proof -
  have first: "thrown (SkillBadge_firstRender b) = None"
    "root (SkillBadge_firstRender b) = SkillBadge_render b"
    by (simp_all add: SkillBadge_firstRender_def)
  have not_level: "c \<noteq> ''badge'' \<and> c \<noteq> ''clickable''" if "c \<in> set levels" for c
    using that by (auto simp: levels_def)
  have among: "set (level_classes (SkillBadge_render b)) =
      set levels \<inter> set (split_on_ascii_whitespace (level b))"
    unfolding level_classes_def set_filter SkillBadge_first_classes
    using not_level assms split_token [OF token_clickable] by auto
  have inter: "''intermediate'' \<in> set (classes (SkillBadge_render b)) \<longleftrightarrow>
      ''intermediate'' \<in> set (split_on_ascii_whitespace (level b))"
    unfolding SkillBadge_first_classes by (simp add: split_token [OF token_clickable])
  have token: "level_classes (SkillBadge_render b) = []" if "validate_token (level b) = None"
  proof -
    from that assms have "set (level_classes (SkillBadge_render b)) = {}"
      unfolding among by (simp add: split_token)
    then show ?thesis by simp
  qed
  have later: "thrown (SkillBadge_update b (SkillBadge_firstRender b0)) = validate_token (level b)"
    if "level b0 \<in> set levels"
    using that by (rule SkillBadge_update_thrown)
  have later_classes: "set (classes (root (SkillBadge_update b (SkillBadge_firstRender b0)))) =
      set (classes (SkillBadge_render b))"
    if "level b0 \<in> set levels" and "validate_token (level b) = None"
  proof -
    from that(1) have p0: "plain_class (level b0)" by (rule plain_levels)
    then have "in_step b0 (SkillBadge_firstRender b0)"
      by (intro in_step_first) (simp add: plain_class_def)
    from in_step_update [OF this p0 that(2)] show ?thesis
      by (rule in_step_view(2) [OF that(2)])
  qed
  from first among inter token later later_classes show ?thesis
    unfolding SkillBadge_first_classes by blast
qed

theorem SkillBadge_invalid_level_no_fallback_witness:
  "''guru expert'' \<notin> set levels \<and>
   classes (SkillBadge_render
      \<lparr>skill = ''TypeScript'', level = ''guru expert'', SkillBadge.clickable = False\<rparr>) =
     [''badge'', ''guru'', ''expert''] \<and>
   level_classes (SkillBadge_render
      \<lparr>skill = ''TypeScript'', level = ''guru expert'', SkillBadge.clickable = False\<rparr>) =
     [''expert''] \<and>
   ''intermediate'' \<in> set levels \<and>
   thrown (SkillBadge_update
      \<lparr>skill = ''TypeScript'', level = ''guru expert'', SkillBadge.clickable = False\<rparr>
      (SkillBadge_firstRender
        \<lparr>skill = ''TypeScript'', level = ''intermediate'', SkillBadge.clickable = False\<rparr>)) =
     Some InvalidCharacterError"
  using SkillBadge_invalid_level_no_fallback
    [of "\<lparr>skill = ''TypeScript'', level = ''guru expert'', SkillBadge.clickable = False\<rparr>"
        "\<lparr>skill = ''TypeScript'', level = ''intermediate'', SkillBadge.clickable = False\<rparr>"]
  by code_simp

text \<open>
  C2. An instance of either variant whose \<open>clickable\<close> flag is false dispatches no event,
  whatever sequence of clicks and key presses is delivered to its handlers: the list of
  dispatched events after the sequence is the list before it.
\<close>

theorem not_clickable_dispatches_nothing:
  "(\<not> SkillBadge.clickable (this w) \<longrightarrow>
      dispatched (SkillBadge_run is w) = dispatched w) \<and>
   (\<not> ProfileCard.clickable (this v) \<longrightarrow>
      dispatched (ProfileCard_run js v) = dispatched v)"
  by (simp add: SkillBadge_run_inert ProfileCard_run_inert)

theorem not_clickable_dispatches_nothing_witness:
  "\<not> SkillBadge.clickable (this \<lparr>this = \<lparr>skill = ''TypeScript'', level = ''advanced'',
       SkillBadge.clickable = False\<rparr>, effects = []\<rparr>) \<and>
   dispatched (SkillBadge_run [Click, KeyDown \<lparr>key = ''Enter''\<rparr>, KeyDown \<lparr>key = '' ''\<rparr>]
     \<lparr>this = \<lparr>skill = ''TypeScript'', level = ''advanced'',
       SkillBadge.clickable = False\<rparr>, effects = []\<rparr>) = [] \<and>
   \<not> ProfileCard.clickable (this \<lparr>this = \<lparr>name = ''Sarah Johnson'',
       title = ''Frontend Developer'', avatar = [], ProfileCard.clickable = False\<rparr>,
       effects = []\<rparr>) \<and>
   dispatched (ProfileCard_run [KeyDown \<lparr>key = '' ''\<rparr>, Click, KeyDown \<lparr>key = ''Enter''\<rparr>]
     \<lparr>this = \<lparr>name = ''Sarah Johnson'', title = ''Frontend Developer'', avatar = [],
       ProfileCard.clickable = False\<rparr>, effects = []\<rparr>) = []"
  using not_clickable_dispatches_nothing
    [of "\<lparr>this = \<lparr>skill = ''TypeScript'', level = ''advanced'',
           SkillBadge.clickable = False\<rparr>, effects = []\<rparr>"
        "[Click, KeyDown \<lparr>key = ''Enter''\<rparr>, KeyDown \<lparr>key = '' ''\<rparr>]"
        "\<lparr>this = \<lparr>name = ''Sarah Johnson'', title = ''Frontend Developer'', avatar = [],
           ProfileCard.clickable = False\<rparr>, effects = []\<rparr>"
        "[KeyDown \<lparr>key = '' ''\<rparr>, Click, KeyDown \<lparr>key = ''Enter''\<rparr>]"]
  by (simp add: dispatched_def)


text \<open>
  C3. For an instance of either variant whose \<open>clickable\<close> flag is true, a click
  dispatches exactly one event; a key press whose key is \<open>Enter\<close> or the space character
  dispatches what the click dispatches, so one event with the same type and payload,
  and leaves the instance as the click does (the key handler calls \<open>preventDefault\<close>
  first, which the click handler has no event to call on); and a key press with any
  other key leaves the state as it was, with no event.
\<close>

theorem key_activation_equals_click:
  "(SkillBadge.clickable (this w) \<longrightarrow>
      dispatched (SkillBadge_handleClick w) =
        dispatched w @
          [\<lparr>type = ''badge-click'',
            detail = [(''skill'', skill (this w)), (''level'', level (this w))],
            bubbles = True, composed = True\<rparr>] \<and>
      (\<forall>e. key e = ''Enter'' \<or> key e = '' '' \<longrightarrow>
         dispatched (SkillBadge_handleKeyDown e w) = dispatched (SkillBadge_handleClick w) \<and>
         this (SkillBadge_handleKeyDown e w) = this (SkillBadge_handleClick w)) \<and>
      (\<forall>e. key e \<noteq> ''Enter'' \<and> key e \<noteq> '' '' \<longrightarrow> SkillBadge_handleKeyDown e w = w)) \<and>
   (ProfileCard.clickable (this v) \<longrightarrow>
      dispatched (ProfileCard_handleClick v) =
        dispatched v @
          [\<lparr>type = ''profile-click'',
            detail = [(''name'', name (this v)), (''title'', title (this v))],
            bubbles = True, composed = True\<rparr>] \<and>
      (\<forall>e. key e = ''Enter'' \<or> key e = '' '' \<longrightarrow>
         dispatched (ProfileCard_handleKeyDown e v) = dispatched (ProfileCard_handleClick v) \<and>
         this (ProfileCard_handleKeyDown e v) = this (ProfileCard_handleClick v)) \<and>
      (\<forall>e. key e \<noteq> ''Enter'' \<and> key e \<noteq> '' '' \<longrightarrow> ProfileCard_handleKeyDown e v = v))"
proof (intro conjI impI allI)
  assume "SkillBadge.clickable (this w)"
  then show "dispatched (SkillBadge_handleClick w) =
      dispatched w @
        [\<lparr>type = ''badge-click'',
          detail = [(''skill'', skill (this w)), (''level'', level (this w))],
          bubbles = True, composed = True\<rparr>]"
    by (simp add: SkillBadge_handleClick_dispatched)
next
  fix e :: KeyboardEvent
  assume "SkillBadge.clickable (this w)" and "key e = ''Enter'' \<or> key e = '' ''"
  then show "dispatched (SkillBadge_handleKeyDown e w) = dispatched (SkillBadge_handleClick w)"
    by (simp add: SkillBadge_handleKeyDown_dispatched SkillBadge_handleClick_dispatched)
next
  fix e :: KeyboardEvent
  show "this (SkillBadge_handleKeyDown e w) = this (SkillBadge_handleClick w)"
    by (simp add: SkillBadge_handleKeyDown_this SkillBadge_handleClick_this)
next
  fix e :: KeyboardEvent
  assume "key e \<noteq> ''Enter'' \<and> key e \<noteq> '' ''"
  then show "SkillBadge_handleKeyDown e w = w"
    by (simp add: SkillBadge_handleKeyDown_def)
next
  assume "ProfileCard.clickable (this v)"
  then show "dispatched (ProfileCard_handleClick v) =
      dispatched v @
        [\<lparr>type = ''profile-click'',
          detail = [(''name'', name (this v)), (''title'', title (this v))],
          bubbles = True, composed = True\<rparr>]"
    by (simp add: ProfileCard_handleClick_dispatched)
next
  fix e :: KeyboardEvent
  assume "ProfileCard.clickable (this v)" and "key e = ''Enter'' \<or> key e = '' ''"
  then show "dispatched (ProfileCard_handleKeyDown e v) = dispatched (ProfileCard_handleClick v)"
    by (simp add: ProfileCard_handleKeyDown_dispatched ProfileCard_handleClick_dispatched)
next
  fix e :: KeyboardEvent
  show "this (ProfileCard_handleKeyDown e v) = this (ProfileCard_handleClick v)"
    by (simp add: ProfileCard_handleKeyDown_this ProfileCard_handleClick_this)
next
  fix e :: KeyboardEvent
  assume "key e \<noteq> ''Enter'' \<and> key e \<noteq> '' ''"
  then show "ProfileCard_handleKeyDown e v = v"
    by (simp add: ProfileCard_handleKeyDown_def)
qed

theorem key_activation_equals_click_witness:
  "SkillBadge.clickable (this \<lparr>this = \<lparr>skill = ''Lit'', level = ''expert'',
       SkillBadge.clickable = True\<rparr>, effects = []\<rparr>) \<and>
   dispatched (SkillBadge_handleClick \<lparr>this = \<lparr>skill = ''Lit'', level = ''expert'',
       SkillBadge.clickable = True\<rparr>, effects = []\<rparr>) =
     [\<lparr>type = ''badge-click'', detail = [(''skill'', ''Lit''), (''level'', ''expert'')],
       bubbles = True, composed = True\<rparr>] \<and>
   dispatched (SkillBadge_handleKeyDown \<lparr>key = ''Enter''\<rparr> \<lparr>this = \<lparr>skill = ''Lit'',
       level = ''expert'', SkillBadge.clickable = True\<rparr>, effects = []\<rparr>) =
     [\<lparr>type = ''badge-click'', detail = [(''skill'', ''Lit''), (''level'', ''expert'')],
       bubbles = True, composed = True\<rparr>] \<and>
   dispatched (SkillBadge_handleKeyDown \<lparr>key = '' ''\<rparr> \<lparr>this = \<lparr>skill = ''Lit'',
       level = ''expert'', SkillBadge.clickable = True\<rparr>, effects = []\<rparr>) =
     [\<lparr>type = ''badge-click'', detail = [(''skill'', ''Lit''), (''level'', ''expert'')],
       bubbles = True, composed = True\<rparr>] \<and>
   dispatched (SkillBadge_handleKeyDown \<lparr>key = ''Tab''\<rparr> \<lparr>this = \<lparr>skill = ''Lit'',
       level = ''expert'', SkillBadge.clickable = True\<rparr>, effects = []\<rparr>) = [] \<and>
   ProfileCard.clickable (this \<lparr>this = \<lparr>name = ''Sarah Johnson'',
       title = ''Frontend Developer'', avatar = [], ProfileCard.clickable = True\<rparr>,
       effects = []\<rparr>) \<and>
   dispatched (ProfileCard_handleKeyDown \<lparr>key = ''Enter''\<rparr> \<lparr>this = \<lparr>name = ''Sarah Johnson'',
       title = ''Frontend Developer'', avatar = [], ProfileCard.clickable = True\<rparr>,
       effects = []\<rparr>) =
     [\<lparr>type = ''profile-click'',
       detail = [(''name'', ''Sarah Johnson''), (''title'', ''Frontend Developer'')],
       bubbles = True, composed = True\<rparr>] \<and>
   dispatched (ProfileCard_handleKeyDown \<lparr>key = ''a''\<rparr> \<lparr>this = \<lparr>name = ''Sarah Johnson'',
       title = ''Frontend Developer'', avatar = [], ProfileCard.clickable = True\<rparr>,
       effects = []\<rparr>) = []"
  using key_activation_equals_click
    [of "\<lparr>this = \<lparr>skill = ''Lit'', level = ''expert'', SkillBadge.clickable = True\<rparr>,
          effects = []\<rparr>"
        "\<lparr>this = \<lparr>name = ''Sarah Johnson'', title = ''Frontend Developer'', avatar = [],
          ProfileCard.clickable = True\<rparr>, effects = []\<rparr>"]
  by (simp add: dispatched_def)


text \<open>
  C5. For every attribute state of the profile card: when \<open>avatar\<close> is the empty string
  the rendered view contains no \<open>img\<close> element; when it is not empty the view contains
  one \<open>img\<close> element, and its \<open>alt\<close> attribute is \<open>Avatar of\<close> followed by a space and
  \<open>name\<close>.
\<close>

theorem ProfileCard_avatar_image:
  "(avatar p = [] \<longrightarrow> elements ''img'' (ProfileCard_render p) = []) \<and>
   (avatar p \<noteq> [] \<longrightarrow>
      map (\<lambda>n. attribute n ''alt'') (elements ''img'' (ProfileCard_render p)) =
        [Some (''Avatar of '' @ name p)])"
  by (simp add: ProfileCard_render_def elements_def attribute_def)

theorem ProfileCard_avatar_image_witness:
  "elements ''img'' (ProfileCard_render \<lparr>name = ''Sarah Johnson'',
      title = ''Frontend Developer'', avatar = [], ProfileCard.clickable = True\<rparr>) = [] \<and>
   map (\<lambda>n. attribute n ''alt'') (elements ''img'' (ProfileCard_render
     \<lparr>name = ''John Doe'', title = ''Frontend Developer'',
      avatar = ''https://example.com/avatar.jpg'', ProfileCard.clickable = False\<rparr>)) =
     [Some ''Avatar of John Doe'']"
  using ProfileCard_avatar_image
    [of "\<lparr>name = ''Sarah Johnson'', title = ''Frontend Developer'', avatar = [],
          ProfileCard.clickable = True\<rparr>"]
    ProfileCard_avatar_image
    [of "\<lparr>name = ''John Doe'', title = ''Frontend Developer'',
          avatar = ''https://example.com/avatar.jpg'', ProfileCard.clickable = False\<rparr>"]
  by simp







text \<open>
  C8. Whatever the state in which a handler of either variant runs, the events it
  dispatches are none or exactly one, and that one has \<open>bubbles\<close> and \<open>composed\<close> set to
  true and carries as \<open>detail\<close> the values that the identifying properties have in that
  state: \<open>skill\<close> and \<open>level\<close> for the badge, \<open>name\<close> and \<open>title\<close> for the card. The detail
  is a list of strings, not a reference to the instance.
\<close>

theorem activation_event_configuration:
  "dispatched (SkillBadge_handleClick w) =
     dispatched w @
     (if SkillBadge.clickable (this w)
      then [\<lparr>type = ''badge-click'',
             detail = [(''skill'', skill (this w)), (''level'', level (this w))],
             bubbles = True, composed = True\<rparr>]
      else []) \<and>
   dispatched (SkillBadge_handleKeyDown e w) =
     dispatched w @
     (if SkillBadge.clickable (this w) \<and> (key e = ''Enter'' \<or> key e = '' '')
      then [\<lparr>type = ''badge-click'',
             detail = [(''skill'', skill (this w)), (''level'', level (this w))],
             bubbles = True, composed = True\<rparr>]
      else []) \<and>
   dispatched (ProfileCard_handleClick v) =
     dispatched v @
     (if ProfileCard.clickable (this v)
      then [\<lparr>type = ''profile-click'',
             detail = [(''name'', name (this v)), (''title'', title (this v))],
             bubbles = True, composed = True\<rparr>]
      else []) \<and>
   dispatched (ProfileCard_handleKeyDown e' v) =
     dispatched v @
     (if ProfileCard.clickable (this v) \<and> (key e' = ''Enter'' \<or> key e' = '' '')
      then [\<lparr>type = ''profile-click'',
             detail = [(''name'', name (this v)), (''title'', title (this v))],
             bubbles = True, composed = True\<rparr>]
      else [])"
  using SkillBadge_handleClick_dispatched [of w] SkillBadge_handleKeyDown_dispatched [of e w]
    ProfileCard_handleClick_dispatched [of v] ProfileCard_handleKeyDown_dispatched [of e' v]
  by (intro conjI)

theorem activation_event_configuration_witness:
  "map bubbles (dispatched (SkillBadge_handleClick \<lparr>this = \<lparr>skill = ''Lit'',
       level = ''expert'', SkillBadge.clickable = True\<rparr>, effects = []\<rparr>)) = [True] \<and>
   map composed (dispatched (SkillBadge_handleKeyDown \<lparr>key = '' ''\<rparr> \<lparr>this = \<lparr>skill = ''Lit'',
       level = ''expert'', SkillBadge.clickable = True\<rparr>, effects = []\<rparr>)) = [True] \<and>
   map detail (dispatched (ProfileCard_handleClick \<lparr>this = \<lparr>name = ''Sarah Johnson'',
       title = ''Frontend Developer'', avatar = [], ProfileCard.clickable = True\<rparr>,
       effects = []\<rparr>)) =
     [[(''name'', ''Sarah Johnson''), (''title'', ''Frontend Developer'')]] \<and>
   dispatched (ProfileCard_handleKeyDown \<lparr>key = ''Enter''\<rparr> \<lparr>this = \<lparr>name = ''Sarah Johnson'',
       title = ''Frontend Developer'', avatar = [], ProfileCard.clickable = True\<rparr>,
       effects = []\<rparr>) =
     [\<lparr>type = ''profile-click'',
       detail = [(''name'', ''Sarah Johnson''), (''title'', ''Frontend Developer'')],
       bubbles = True, composed = True\<rparr>]"
  using activation_event_configuration
    [of "\<lparr>this = \<lparr>skill = ''Lit'', level = ''expert'', SkillBadge.clickable = True\<rparr>,
          effects = []\<rparr>"
        "\<lparr>key = '' ''\<rparr>"
        "\<lparr>this = \<lparr>name = ''Sarah Johnson'', title = ''Frontend Developer'', avatar = [],
          ProfileCard.clickable = True\<rparr>, effects = []\<rparr>"
        "\<lparr>key = ''Enter''\<rparr>"]
  by (simp add: dispatched_def)

text \<open>
  C9. The handlers of either variant leave the instance as it is: after \<open>_handleClick\<close>,
  after \<open>_handleKeyDown\<close> with any keyboard event, and after any sequence of clicks and
  key presses, every property of the instance has the value it had before.
\<close>

theorem handlers_keep_properties:
  "this (SkillBadge_handleClick w) = this w \<and>
   this (SkillBadge_handleKeyDown e w) = this w \<and>
   this (SkillBadge_run is w) = this w \<and>
   this (ProfileCard_handleClick v) = this v \<and>
   this (ProfileCard_handleKeyDown e' v) = this v \<and>
   this (ProfileCard_run js v) = this v"
  by (simp add: SkillBadge_handleClick_this SkillBadge_handleKeyDown_this SkillBadge_run_this
      ProfileCard_handleClick_this ProfileCard_handleKeyDown_this ProfileCard_run_this)

theorem handlers_keep_properties_witness:
  "this (SkillBadge_run [Click, KeyDown \<lparr>key = ''Enter''\<rparr>, KeyDown \<lparr>key = ''x''\<rparr>]
     \<lparr>this = \<lparr>skill = ''Lit'', level = ''expert'', SkillBadge.clickable = True\<rparr>,
      effects = []\<rparr>) =
     \<lparr>skill = ''Lit'', level = ''expert'', SkillBadge.clickable = True\<rparr> \<and>
   this (ProfileCard_run [KeyDown \<lparr>key = '' ''\<rparr>, Click]
     \<lparr>this = \<lparr>name = ''John Doe'', title = ''Frontend Developer'',
       avatar = ''https://example.com/avatar.jpg'', ProfileCard.clickable = True\<rparr>,
      effects = []\<rparr>) =
     \<lparr>name = ''John Doe'', title = ''Frontend Developer'',
       avatar = ''https://example.com/avatar.jpg'', ProfileCard.clickable = True\<rparr>"
  using handlers_keep_properties
    [of "\<lparr>this = \<lparr>skill = ''Lit'', level = ''expert'', SkillBadge.clickable = True\<rparr>,
          effects = []\<rparr>"
        "\<lparr>key = ''Enter''\<rparr>"
        "[Click, KeyDown \<lparr>key = ''Enter''\<rparr>, KeyDown \<lparr>key = ''x''\<rparr>]"
        "\<lparr>this = \<lparr>name = ''John Doe'', title = ''Frontend Developer'',
          avatar = ''https://example.com/avatar.jpg'', ProfileCard.clickable = True\<rparr>,
          effects = []\<rparr>"
        "\<lparr>key = '' ''\<rparr>"
        "[KeyDown \<lparr>key = '' ''\<rparr>, Click]"]
  by simp

text \<open>
  C10. When \<open>clickable\<close> is false, \<open>_handleKeyDown\<close> of either variant does not call
  \<open>preventDefault\<close>, whatever the key, \<open>Enter\<close> and the space character included: the
  list of keyboard events whose default was prevented is unchanged, and so is the whole
  state.
\<close>

theorem not_clickable_keeps_default:
  "(\<not> SkillBadge.clickable (this w) \<longrightarrow>
      prevented (SkillBadge_handleKeyDown e w) = prevented w \<and>
      SkillBadge_handleKeyDown e w = w) \<and>
   (\<not> ProfileCard.clickable (this v) \<longrightarrow>
      prevented (ProfileCard_handleKeyDown e' v) = prevented v \<and>
      ProfileCard_handleKeyDown e' v = v)"
  by (simp add: SkillBadge_handleKeyDown_def ProfileCard_handleKeyDown_def)

theorem not_clickable_keeps_default_witness:
  "\<not> SkillBadge.clickable (this \<lparr>this = \<lparr>skill = ''TypeScript'', level = ''advanced'',
       SkillBadge.clickable = False\<rparr>, effects = []\<rparr>) \<and>
   prevented (SkillBadge_handleKeyDown \<lparr>key = ''Enter''\<rparr> \<lparr>this = \<lparr>skill = ''TypeScript'',
       level = ''advanced'', SkillBadge.clickable = False\<rparr>, effects = []\<rparr>) = [] \<and>
   \<not> ProfileCard.clickable (this \<lparr>this = \<lparr>name = ''Sarah Johnson'',
       title = ''Frontend Developer'', avatar = [], ProfileCard.clickable = False\<rparr>,
       effects = []\<rparr>) \<and>
   prevented (ProfileCard_handleKeyDown \<lparr>key = '' ''\<rparr> \<lparr>this = \<lparr>name = ''Sarah Johnson'',
       title = ''Frontend Developer'', avatar = [], ProfileCard.clickable = False\<rparr>,
       effects = []\<rparr>) = []"
  using not_clickable_keeps_default
    [of "\<lparr>this = \<lparr>skill = ''TypeScript'', level = ''advanced'',
          SkillBadge.clickable = False\<rparr>, effects = []\<rparr>"
        "\<lparr>key = ''Enter''\<rparr>"
        "\<lparr>this = \<lparr>name = ''Sarah Johnson'', title = ''Frontend Developer'', avatar = [],
          ProfileCard.clickable = False\<rparr>, effects = []\<rparr>"
        "\<lparr>key = '' ''\<rparr>"]
  by (simp add: prevented_def)



end
